theory Spec2Isabelle
  imports Main
begin

section \<open>The YouTube-to-MP3 command-line tool (src/main.py)\<close>

text \<open>
  The program is a sequence of calls into the operating system, the extraction library
  and the terminal. Each function of \<^verbatim>\<open>main.py\<close> is translated into a function that
  takes the behaviour of those collaborators as a record \<open>env\<close>, takes the set of
  existing paths where it touches the file system, and returns its Python result together
  with the list of calls it issued, in order (\<open>event list\<close>).
\<close>

subsection \<open>Strings\<close>

text \<open>
  A Python \<^verbatim>\<open>str\<close> is modelled by its UTF-8 bytes. The four non-ASCII symbols the
  program prints are written out as bytes.
\<close>

definition cross_mark :: string where
  "cross_mark = [CHR 0xE2, CHR 0x9D, CHR 0x8C]"

definition check_mark :: string where
  "check_mark = [CHR 0xE2, CHR 0x9C, CHR 0x85]"

definition warning_sign :: string where
  "warning_sign = [CHR 0xE2, CHR 0x9A, CHR 0xA0, CHR 0xEF, CHR 0xB8, CHR 0x8F]"

definition bullet :: string where
  "bullet = [CHR 0xE2, CHR 0x80, CHR 0xA2]"

text \<open>
  \<^verbatim>\<open>str.lower()\<close>: an ASCII capital becomes the small letter, every other byte is
  kept. (Python also lowers non-ASCII capitals; none of them lowers to one of the
  letters \<^verbatim>\<open>y\<close>, \<^verbatim>\<open>e\<close>, \<^verbatim>\<open>s\<close>, so the comparison made of the
  response is the same.)
\<close>

definition lower_char :: "char \<Rightarrow> char" where
  "lower_char c =
     (case map_of (zip ''ABCDEFGHIJKLMNOPQRSTUVWXYZ'' ''abcdefghijklmnopqrstuvwxyz'') c of
        Some l \<Rightarrow> l
      | None \<Rightarrow> c)"

definition lower :: "string \<Rightarrow> string" where
  "lower s = map lower_char s"

text \<open>\<^verbatim>\<open>needle in haystack\<close> on strings: the needle occurs as a contiguous run.\<close>

fun starts_with :: "string \<Rightarrow> string \<Rightarrow> bool" where
  "starts_with [] ys = True"
| "starts_with (x # xs) [] = False"
| "starts_with (x # xs) (y # ys) = (x = y \<and> starts_with xs ys)"

fun contains :: "string \<Rightarrow> string \<Rightarrow> bool" where
  "contains xs [] = (xs = [])"
| "contains xs (y # ys) = (starts_with xs (y # ys) \<or> contains xs ys)"

text \<open>\<^verbatim>\<open>str(n)\<close> for a non-negative integer: its decimal digits.\<close>

definition digit :: "nat \<Rightarrow> char" where
  "digit n = ''0123456789'' ! n"

fun string_of_nat :: "nat \<Rightarrow> string" where
  "string_of_nat n =
     (if n < 10 then [digit n] else string_of_nat (n div 10) @ [digit (n mod 10)])"

declare string_of_nat.simps [simp del]

subsection \<open>Exceptions, probe results, options\<close>

text \<open>
  The \<^verbatim>\<open>except\<close> clauses of \<open>download_audio\<close> tell three classes apart:
  \<^verbatim>\<open>yt_dlp.DownloadError\<close>, every other instance of \<^verbatim>\<open>Exception\<close>, and what is
  raised outside \<^verbatim>\<open>Exception\<close> (\<^verbatim>\<open>KeyboardInterrupt\<close>, \<^verbatim>\<open>SystemExit\<close>), which
  no clause catches. The string is \<^verbatim>\<open>str(e)\<close>.
\<close>

datatype py_exception =
    DownloadError string
  | OtherException string
  | NonException string

fun is_Exception :: "py_exception \<Rightarrow> bool" where
  "is_Exception (DownloadError m) = True"
| "is_Exception (OtherException m) = True"
| "is_Exception (NonException m) = False"

text \<open>
  What \<^verbatim>\<open>extract_info(url, download=False)\<close> returns: \<^verbatim>\<open>None\<close> (the library
  does so when it has swallowed an error under \<^verbatim>\<open>ignoreerrors\<close>) or a dictionary.
  Of the dictionary the program reads the keys \<^verbatim>\<open>title\<close> and \<^verbatim>\<open>entries\<close>, each
  of which may be absent; an entry of a playlist is a descriptor or \<^verbatim>\<open>None\<close>.
\<close>

record entry =
  entry_title :: string

record info_dict =
  title :: "string option"
  entries :: "entry option list option"

datatype probe_value = NoneValue | Info info_dict

record ydl_opts =
  format_selector :: string
  outtmpl :: string
  postprocessor_key :: string
  preferredcodec :: string
  preferredquality :: string
  writethumbnail :: bool
  writeinfojson :: bool
  embed_subs :: bool
  keepvideo :: bool
  ignoreerrors :: bool
  abort_on_unavailable_fragment :: bool
  player_client :: "string list"
  player_skip :: "string list"

subsection \<open>The outside world\<close>

text \<open>
  The calls the program issues, in the order it issues them. Queries without effect
  (\<^verbatim>\<open>shutil.which\<close>, \<^verbatim>\<open>os.path.exists\<close>, \<^verbatim>\<open>os.path.abspath\<close>) are not
  recorded. These queries, \<^verbatim>\<open>print\<close> and the closing of the session are taken not
  to raise; every other call can.
\<close>

datatype event =
    Print string
  | Makedirs string
  | NewSession ydl_opts
  | ExtractInfo string
  | Input string
  | Download "string list"

text \<open>
  The behaviour of the collaborators. \<open>which\<close> tells whether \<^verbatim>\<open>shutil.which\<close>
  finds the tool; \<open>makedirs_fault\<close>, \<open>session_fault\<close> and \<open>download\<close> give the
  exception the call raises, if any; \<open>extract_info\<close> and \<open>input\<close> give the exception
  raised or the value returned.
\<close>

record env =
  which :: "string \<Rightarrow> bool"
  makedirs_fault :: "string \<Rightarrow> py_exception option"
  session_fault :: "ydl_opts \<Rightarrow> py_exception option"
  extract_info :: "string \<Rightarrow> py_exception + probe_value"
  input :: "string \<Rightarrow> py_exception + string"
  download :: "string list \<Rightarrow> py_exception option"
  abspath :: "string \<Rightarrow> string"

text \<open>
  The file system is the set of paths that exist. \<^verbatim>\<open>os.makedirs(p)\<close> raises
  \<^verbatim>\<open>FileExistsError\<close> on an existing path, raises what the environment says, or
  creates \<open>p\<close> and the missing directories above it. A call that raises is taken to
  create nothing.
\<close>

definition parents :: "string \<Rightarrow> string list" where
  "parents p = map (\<lambda>i. take i p) (filter (\<lambda>i. p ! i = CHR ''/'') [1..<length p])"

definition makedirs :: "env \<Rightarrow> string \<Rightarrow> string set \<Rightarrow> py_exception option \<times> string set" where
  "makedirs e p fs =
     (if p \<in> fs then (Some (OtherException (''[Errno 17] File exists: '' @ [CHR 0x27] @ p @ [CHR 0x27])), fs)
      else case makedirs_fault e p of
             Some x \<Rightarrow> (Some x, fs)
           | None \<Rightarrow> (None, fs \<union> set (parents p) \<union> {p}))"

subsection \<open>check_ffmpeg\<close>

definition ffmpeg_help :: "string list" where
  "ffmpeg_help =
     [cross_mark @ '' Error: FFmpeg is not installed or not in PATH!'',
      CHR 0x0A # ''Please install FFmpeg:'',
      ''  '' @ bullet @ '' Windows: Download from https://ffmpeg.org/download.html'',
      ''  '' @ bullet @ '' Mac: brew install ffmpeg'',
      ''  '' @ bullet @ '' Linux: sudo apt install ffmpeg (Ubuntu/Debian)'',
      CHR 0x0A # ''FFmpeg is required to convert audio to MP3 format.'']"

definition check_ffmpeg :: "env \<Rightarrow> bool \<times> event list" where
  "check_ffmpeg e =
     (if \<not> which e ''ffmpeg'' \<or> \<not> which e ''ffprobe''
      then (False, map Print ffmpeg_help)
      else (True, []))"

subsection \<open>download_audio\<close>

text \<open>\<^verbatim>\<open>os.path.join(output_dir, name)\<close> for a relative \<open>name\<close>.\<close>

definition path_join :: "string \<Rightarrow> string \<Rightarrow> string" where
  "path_join d name = (if d = [] \<or> last d = CHR ''/'' then d @ name else d @ ''/'' @ name)"

definition make_ydl_opts :: "string \<Rightarrow> ydl_opts" where
  "make_ydl_opts output_dir =
     \<lparr> format_selector = ''bestaudio/best'',
       outtmpl = path_join output_dir ''%(title)s.%(ext)s'',
       postprocessor_key = ''FFmpegExtractAudio'',
       preferredcodec = ''mp3'',
       preferredquality = ''320'',
       writethumbnail = False,
       writeinfojson = False,
       embed_subs = False,
       keepvideo = False,
       ignoreerrors = True,
       abort_on_unavailable_fragment = False,
       player_client = [''android'', ''web''],
       player_skip = [''webpage'', ''configs''] \<rparr>"

text \<open>How a block of statements ends: by raising, by \<^verbatim>\<open>return\<close>, or by running to its end.\<close>

datatype flow = Raises py_exception | Returns bool | FallsThrough

text \<open>\<^verbatim>\<open>info.get('title', 'Unknown')\<close>\<close>

definition get_title :: "info_dict \<Rightarrow> string" where
  "get_title i = (case title i of Some t \<Rightarrow> t | None \<Rightarrow> ''Unknown'')"

definition confirm_prompt :: string where
  "confirm_prompt = ''Do you want to download the available videos? (y/n): ''"

definition unavailable_note :: "nat \<Rightarrow> string" where
  "unavailable_note n =
     warning_sign @ ''  Note: '' @ string_of_nat n @ '' videos are unavailable and will be skipped''"

text \<open>Lines 89 to 91: the download with the session of the probe, and the report.\<close>

definition fetch :: "env \<Rightarrow> string \<Rightarrow> string \<Rightarrow> flow \<times> event list" where
  "fetch e url output_dir =
     (case download e [url] of
        Some x \<Rightarrow> (Raises x, [Download [url]])
      | None \<Rightarrow>
          (FallsThrough,
           [Download [url],
            Print (CHR 0x0A # check_mark @ '' Download completed! Files saved to: ''
                   @ abspath e output_dir)]))"

text \<open>Lines 66 to 74: the two counts and the printed report of a playlist.\<close>

definition playlist_report :: "info_dict \<Rightarrow> entry option list \<Rightarrow> event list" where
  "playlist_report i es =
     (let available_count = length (filter (\<lambda>x. x \<noteq> None) es);
          total_count = length es
      in [Print (''Found playlist: '' @ get_title i),
          Print (''Total videos: '' @ string_of_nat total_count),
          Print (''Available videos: '' @ string_of_nat available_count)]
         @ (if total_count \<noteq> available_count
            then [Print (unavailable_note (total_count - available_count))] else []))"

text \<open>Lines 64 to 83: the branch taken when the probe result has the key \<^verbatim>\<open>entries\<close>.\<close>

definition playlist_branch ::
  "env \<Rightarrow> string \<Rightarrow> string \<Rightarrow> bool \<Rightarrow> info_dict \<Rightarrow> entry option list \<Rightarrow> flow \<times> event list" where
  "playlist_branch e url output_dir skip_confirmation i es =
     (let report = playlist_report i es
      in if \<not> skip_confirmation
         then (case input e confirm_prompt of
                 Inl x \<Rightarrow> (Raises x, report @ [Input confirm_prompt])
               | Inr response \<Rightarrow>
                   if lower response \<notin> set [''y'', ''yes'']
                   then (Returns False,
                         report @ [Input confirm_prompt, Print ''Download cancelled.''])
                   else (case fetch e url output_dir of
                           (r, evs) \<Rightarrow>
                             (r, report @ [Input confirm_prompt, Print ''Downloading playlist...'']
                                 @ evs)))
         else (case fetch e url output_dir of
                 (r, evs) \<Rightarrow> (r, report @ [Print ''Downloading playlist...''] @ evs)))"

text \<open>
  Lines 59 to 91, the body of the \<^verbatim>\<open>try\<close>. \<^verbatim>\<open>'entries' in info\<close> raises
  \<^verbatim>\<open>TypeError\<close> when \<open>info\<close> is \<^verbatim>\<open>None\<close>.
\<close>

definition none_not_iterable :: string where
  "none_not_iterable = ''argument of type '' @ [CHR 0x27] @ ''NoneType'' @ [CHR 0x27] @ '' is not iterable''"

definition try_body :: "env \<Rightarrow> string \<Rightarrow> string \<Rightarrow> bool \<Rightarrow> flow \<times> event list" where
  "try_body e url output_dir skip_confirmation =
     (case session_fault e (make_ydl_opts output_dir) of
        Some x \<Rightarrow> (Raises x, [NewSession (make_ydl_opts output_dir)])
      | None \<Rightarrow>
          (let start = [NewSession (make_ydl_opts output_dir), Print ''Analyzing URL...'',
                        ExtractInfo url]
           in case extract_info e url of
                Inl x \<Rightarrow> (Raises x, start)
              | Inr NoneValue \<Rightarrow> (Raises (OtherException none_not_iterable), start)
              | Inr (Info i) \<Rightarrow>
                  (case entries i of
                     Some es \<Rightarrow>
                       (case playlist_branch e url output_dir skip_confirmation i es of
                          (r, evs) \<Rightarrow> (r, start @ evs))
                   | None \<Rightarrow>
                       (case fetch e url output_dir of
                          (r, evs) \<Rightarrow>
                            (r, start @ [Print (''Found video: '' @ get_title i),
                                         Print ''Downloading single video...''] @ evs)))))"

text \<open>What a call of a function gives its caller: a value, or an exception passing through.\<close>

datatype outcome = Returned bool | Propagated py_exception

text \<open>Lines 93 to 100: the \<^verbatim>\<open>except\<close> clauses and the final \<^verbatim>\<open>return True\<close>.\<close>

fun handle :: "flow \<times> event list \<Rightarrow> outcome \<times> event list" where
  "handle (Raises (DownloadError m), evs) =
     (Returned False, evs @ [Print (cross_mark @ '' Download error: '' @ m)])"
| "handle (Raises (OtherException m), evs) =
     (Returned False, evs @ [Print (cross_mark @ '' Unexpected error: '' @ m)])"
| "handle (Raises (NonException m), evs) = (Propagated (NonException m), evs)"
| "handle (Returns b, evs) = (Returned b, evs)"
| "handle (FallsThrough, evs) = (Returned True, evs)"

text \<open>Lines 29 and 30: the directory is created when \<^verbatim>\<open>os.path.exists\<close> denies it.\<close>

definition ensure_dir ::
  "env \<Rightarrow> string \<Rightarrow> string set \<Rightarrow> py_exception option \<times> string set \<times> event list" where
  "ensure_dir e output_dir fs =
     (if output_dir \<notin> fs
      then (case makedirs e output_dir fs of (x, fs1) \<Rightarrow> (x, fs1, [Makedirs output_dir]))
      else (None, fs, []))"

definition download_audio ::
  "env \<Rightarrow> string \<Rightarrow> string \<Rightarrow> bool \<Rightarrow> string set \<Rightarrow> outcome \<times> string set \<times> event list" where
  "download_audio e url output_dir skip_confirmation fs =
     (case check_ffmpeg e of
        (False, evs0) \<Rightarrow> (Returned False, fs, evs0)
      | (True, evs0) \<Rightarrow>
          (case ensure_dir e output_dir fs of
             (Some x, fs1, evs1) \<Rightarrow> (Propagated x, fs1, evs0 @ evs1)
           | (None, fs1, evs1) \<Rightarrow>
               (case handle (try_body e url output_dir skip_confirmation) of
                  (r, evs) \<Rightarrow> (r, fs1, evs0 @ evs1 @ evs))))"

subsection \<open>main\<close>

text \<open>The arguments as \<^verbatim>\<open>parse_args\<close> returns them.\<close>

record args =
  arg_url :: string
  arg_output :: string
  arg_no_confirm :: bool

text \<open>How the process ends: \<^verbatim>\<open>sys.exit(n)\<close> (0 at the end of \<open>main\<close>), or an uncaught exception.\<close>

datatype process_end = Exit nat | Uncaught py_exception

definition main :: "env \<Rightarrow> args \<Rightarrow> string set \<Rightarrow> process_end \<times> string set \<times> event list" where
  "main e a fs =
     (if \<not> contains ''youtube.com'' (arg_url a) \<and> \<not> contains ''youtu.be'' (arg_url a)
      then (Exit 1, fs, [Print ''Error: Please provide a valid YouTube URL''])
      else
        (let banner = [Print (''Processing URL: '' @ arg_url a),
                       Print (''Output directory: '' @ arg_output a),
                       Print (replicate 50 CHR ''-'')]
         in case download_audio e (arg_url a) (arg_output a) (arg_no_confirm a) fs of
              (Returned True, fs1, evs) \<Rightarrow>
                (Exit 0, fs1,
                 banner @ evs @ [Print (CHR 0x0A # check_mark @ '' All downloads completed successfully!'')])
            | (Returned False, fs1, evs) \<Rightarrow>
                (Exit 1, fs1,
                 banner @ evs @ [Print (CHR 0x0A # cross_mark @ '' Download failed!'')])
            | (Propagated x, fs1, evs) \<Rightarrow> (Uncaught x, fs1, banner @ evs)))"

subsection \<open>Reading the printed report\<close>

text \<open>The line that warns of unavailable entries is the one that opens with the warning sign.\<close>

fun is_unavailable_warning :: "event \<Rightarrow> bool" where
  "is_unavailable_warning (Print l) = starts_with warning_sign l"
| "is_unavailable_warning (Makedirs p) = False"
| "is_unavailable_warning (NewSession opts) = False"
| "is_unavailable_warning (ExtractInfo u) = False"
| "is_unavailable_warning (Input p) = False"
| "is_unavailable_warning (Download us) = False"

text \<open>Reading a printed number back: the value of a string of decimal digits.\<close>

definition digit_value :: "char \<Rightarrow> nat" where
  "digit_value c = (of_char c :: nat) - 48"

definition number_of_string :: "string \<Rightarrow> nat" where
  "number_of_string ds = foldl (\<lambda>a c. 10 * a + digit_value c) 0 ds"

subsection \<open>Example runs\<close>

text \<open>
  An environment in which both tools are found, every directory can be created and the
  session opens; the probe, the answer at the prompt and the download are as given.
\<close>

definition example_env ::
  "py_exception + probe_value \<Rightarrow> py_exception + string \<Rightarrow> py_exception option \<Rightarrow> env" where
  "example_env probe response fetched =
     \<lparr> which = (\<lambda>tool. True),
       makedirs_fault = (\<lambda>p. None),
       session_fault = (\<lambda>opts. None),
       extract_info = (\<lambda>u. probe),
       input = (\<lambda>prompt. response),
       download = (\<lambda>us. fetched),
       abspath = (\<lambda>p. ''/home/user/'' @ p) \<rparr>"

definition song :: info_dict where
  "song = \<lparr> title = Some ''Song'', entries = None \<rparr>"

definition my_list :: info_dict where
  "my_list =
     \<lparr> title = Some ''MyList'',
       entries = Some [Some \<lparr>entry_title = ''one''\<rparr>, None, Some \<lparr>entry_title = ''three''\<rparr>] \<rparr>"

definition five_three :: info_dict where
  "five_three =
     \<lparr> title = Some ''Mix'',
       entries = Some [Some \<lparr>entry_title = ''a''\<rparr>, None, Some \<lparr>entry_title = ''c''\<rparr>, None,
                       Some \<lparr>entry_title = ''e''\<rparr>] \<rparr>"

definition empty_list :: info_dict where
  "empty_list = \<lparr> title = None, entries = Some [] \<rparr>"

text \<open>The same environment without \<^verbatim>\<open>ffprobe\<close> on the search path.\<close>

definition env_no_ffprobe :: env where
  "env_no_ffprobe =
     (example_env (Inr (Info song)) (Inr ''y'') None) \<lparr> which := (\<lambda>tool. tool = ''ffmpeg'') \<rparr>"

text \<open>The same environment where no directory may be created (\<^verbatim>\<open>PermissionError\<close>).\<close>

definition env_read_only :: env where
  "env_read_only =
     (example_env (Inr (Info song)) (Inr ''y'') None)
       \<lparr> makedirs_fault := (\<lambda>p. Some (OtherException (''[Errno 13] Permission denied: '' @ [CHR 0x27] @ p @ [CHR 0x27]))) \<rparr>"


definition playlist_url :: string where
  "playlist_url = ''https://www.youtube.com/playlist?list=XYZ''"

definition video_url :: string where
  "video_url = ''https://youtu.be/abc123''"

section \<open>Properties\<close>

subsection \<open>Strings\<close>

lemma lower_char_y: "lower_char c = CHR ''y'' \<longleftrightarrow> c = CHR ''y'' \<or> c = CHR ''Y''"
  by (auto simp: lower_char_def split: if_splits)

lemma lower_char_e: "lower_char c = CHR ''e'' \<longleftrightarrow> c = CHR ''e'' \<or> c = CHR ''E''"
  by (auto simp: lower_char_def split: if_splits)

lemma lower_char_s: "lower_char c = CHR ''s'' \<longleftrightarrow> c = CHR ''s'' \<or> c = CHR ''S''"
  by (auto simp: lower_char_def split: if_splits)

lemma lower_is_y: "lower r = ''y'' \<longleftrightarrow> r \<in> {''y'', ''Y''}"
  by (cases r) (auto simp: lower_def lower_char_y)

lemma map_eq_three:
  "map f r = [a, b, c] \<longleftrightarrow> (\<exists>x y z. r = [x, y, z] \<and> f x = a \<and> f y = b \<and> f z = c)"
  by (auto simp: map_eq_Cons_conv)

lemma lower_is_yes:
  "lower r = ''yes'' \<longleftrightarrow>
   r \<in> {''yes'', ''yeS'', ''yEs'', ''yES'', ''Yes'', ''YeS'', ''YEs'', ''YES''}"
  unfolding lower_def map_eq_three lower_char_y lower_char_e lower_char_s
  by auto

text \<open>The responses the confirmation gate accepts are the ten spellings of y and yes.\<close>

lemma lower_affirmative:
  "lower r \<in> set [''y'', ''yes''] \<longleftrightarrow>
   r \<in> {''y'', ''Y'', ''yes'', ''yeS'', ''yEs'', ''yES'', ''Yes'', ''YeS'', ''YEs'', ''YES''}"
  using lower_is_y [of r] lower_is_yes [of r] by auto

lemma starts_with_iff: "starts_with xs ys \<longleftrightarrow> (\<exists>s. ys = xs @ s)"
  by (induction xs ys rule: starts_with.induct) auto

lemma contains_iff: "contains xs ys \<longleftrightarrow> (\<exists>p s. ys = p @ xs @ s)"
proof (induction ys)
  case Nil
  then show ?case by auto
next
  case (Cons y ys)
  show ?case
  proof
    assume "contains xs (y # ys)"
    then consider "starts_with xs (y # ys)" | "contains xs ys" by auto
    then show "\<exists>p s. y # ys = p @ xs @ s"
    proof cases
      case 1
      then obtain s where "y # ys = xs @ s" by (auto simp: starts_with_iff)
      then have "y # ys = [] @ xs @ s" by simp
      then show ?thesis by blast
    next
      case 2
      then obtain p s where "ys = p @ xs @ s" using Cons.IH by auto
      then have "y # ys = (y # p) @ xs @ s" by simp
      then show ?thesis by blast
    qed
  next
    assume "\<exists>p s. y # ys = p @ xs @ s"
    then obtain p s where eq: "y # ys = p @ xs @ s" by blast
    show "contains xs (y # ys)"
    proof (cases p)
      case Nil
      with eq have "starts_with xs (y # ys)" by (auto simp: starts_with_iff)
      then show ?thesis by simp
    next
      case (Cons a p')
      with eq have "ys = p' @ xs @ s" by simp
      then have "contains xs ys" using Cons.IH by blast
      then show ?thesis by simp
    qed
  qed
qed

subsection \<open>The steps before the session\<close>

lemma check_ffmpeg_True: "fst (check_ffmpeg e) \<Longrightarrow> check_ffmpeg e = (True, [])"
  by (simp add: check_ffmpeg_def split: if_splits)

lemma check_ffmpeg_False:
  "\<not> fst (check_ffmpeg e) \<Longrightarrow> check_ffmpeg e = (False, map Print ffmpeg_help)"
  by (simp add: check_ffmpeg_def split: if_splits)

lemma ensure_dir_None:
  "fst (ensure_dir e d fs) = None \<Longrightarrow>
   ensure_dir e d fs =
     (None, if d \<in> fs then fs else fs \<union> set (parents d) \<union> {d},
      if d \<in> fs then [] else [Makedirs d])"
  by (auto simp: ensure_dir_def makedirs_def split: if_splits option.splits)

lemma ensure_dir_exists: "d \<in> fs \<Longrightarrow> ensure_dir e d fs = (None, fs, [])"
  by (simp add: ensure_dir_def)

text \<open>Once the tools are found and the directory is there, the result is that of the session.\<close>

lemma download_audio_session:
  assumes "fst (check_ffmpeg e)" and "fst (ensure_dir e d fs) = None"
  shows "download_audio e u d s fs =
     (fst (handle (try_body e u d s)),
      (if d \<in> fs then fs else fs \<union> set (parents d) \<union> {d}),
      (if d \<in> fs then [] else [Makedirs d]) @ snd (handle (try_body e u d s)))"
  using assms
  by (simp add: download_audio_def check_ffmpeg_True ensure_dir_None split: prod.splits)

subsection \<open>The confirmation gate\<close>

text \<open>
  C1. When the probe result is a collection, \<open>skip_confirmation\<close> is false and the
  response at the prompt is none of the spellings of y and yes that differ in case only
  (the empty response included), \<open>download_audio\<close> prints the cancellation notice last,
  returns \<open>False\<close>, and issues no download call.
\<close>

theorem decline_cancels_without_download:
  assumes tools: "fst (check_ffmpeg e)"
    and dir: "fst (ensure_dir e d fs) = None"
    and session: "session_fault e (make_ydl_opts d) = None"
    and probe: "extract_info e u = Inr (Info i)"
    and coll: "entries i = Some es"
    and resp: "input e confirm_prompt = Inr r"
    and decline:
      "r \<notin> {''y'', ''Y'', ''yes'', ''yeS'', ''yEs'', ''yES'', ''Yes'', ''YeS'', ''YEs'', ''YES''}"
  shows "\<exists>fs' evs. download_audio e u d False fs = (Returned False, fs', evs)
           \<and> last evs = Print ''Download cancelled.''
           \<and> (\<forall>us. Download us \<notin> set evs)"
proof -
  have low: "lower r \<notin> set [''y'', ''yes'']"
    using decline lower_affirmative [of r] by blast
  have body: "playlist_branch e u d False i es =
     (Returns False, playlist_report i es @ [Input confirm_prompt, Print ''Download cancelled.''])"
    using low resp by (simp add: playlist_branch_def Let_def)
  have tb: "try_body e u d False =
     (Returns False,
       [NewSession (make_ydl_opts d), Print ''Analyzing URL...'', ExtractInfo u] @
       snd (playlist_branch e u d False i es))"
    using session probe coll body by (simp add: try_body_def)
  have "\<forall>us. Download us \<notin> set (playlist_report i es)"
    by (simp add: playlist_report_def Let_def)
  then show ?thesis
    unfolding download_audio_session [OF tools dir] tb body
    by simp
qed

theorem decline_cancels_without_download_witness:
  "fst (check_ffmpeg (example_env (Inr (Info my_list)) (Inr ''n'') None))
   \<and> fst (ensure_dir (example_env (Inr (Info my_list)) (Inr ''n'') None) ''downloads'' {}) = None
   \<and> extract_info (example_env (Inr (Info my_list)) (Inr ''n'') None) playlist_url
       = Inr (Info my_list)
   \<and> input (example_env (Inr (Info my_list)) (Inr ''n'') None) confirm_prompt = Inr ''n''
   \<and> ''n'' \<notin> {''y'', ''Y'', ''yes'', ''yeS'', ''yEs'', ''yES'', ''Yes'', ''YeS'', ''YEs'', ''YES''}
   \<and> (\<exists>fs' evs.
         download_audio (example_env (Inr (Info my_list)) (Inr ''n'') None)
           playlist_url ''downloads'' False {} = (Returned False, fs', evs)
         \<and> last evs = Print ''Download cancelled.''
         \<and> (\<forall>us. Download us \<notin> set evs))"
proof -
  let ?e = "example_env (Inr (Info my_list)) (Inr ''n'') None"
  have h1: "fst (check_ffmpeg ?e)"
    by (simp add: check_ffmpeg_def example_env_def)
  have h2: "fst (ensure_dir ?e ''downloads'' {}) = None"
    by (simp add: ensure_dir_def makedirs_def example_env_def)
  have h3: "session_fault ?e (make_ydl_opts ''downloads'') = None"
    by (simp add: example_env_def)
  have h4: "extract_info ?e playlist_url = Inr (Info my_list)"
    by (simp add: example_env_def)
  have h5: "entries my_list
      = Some [Some \<lparr>entry_title = ''one''\<rparr>, None, Some \<lparr>entry_title = ''three''\<rparr>]"
    by (simp add: my_list_def)
  have h6: "input ?e confirm_prompt = Inr ''n''"
    by (simp add: example_env_def)
  have h7: "''n'' \<notin> {''y'', ''Y'', ''yes'', ''yeS'', ''yEs'', ''yES'', ''Yes'', ''YeS'', ''YEs'', ''YES''}"
    by simp
  show ?thesis
    using decline_cancels_without_download [OF h1 h2 h3 h4 h5 h6 h7] h1 h2 h4 h6 h7 by blast
qed

subsection \<open>Which calls a run can issue\<close>

lemma download_audio_dir_raises:
  assumes "fst (check_ffmpeg e)" and "fst (ensure_dir e d fs) = Some x"
  shows "download_audio e u d s fs = (Propagated x, fs, [Makedirs d])"
  using assms
  by (auto simp: download_audio_def check_ffmpeg_True ensure_dir_def makedirs_def
      split: if_splits option.splits)

lemma playlist_report_prints: "set (playlist_report i es) \<subseteq> range Print"
  by (auto simp: playlist_report_def Let_def)

lemma fetch_events: "set (snd (fetch e u d)) \<subseteq> insert (Download [u]) (range Print)"
  by (auto simp: fetch_def split: option.splits)

lemma fetch_shape: "\<exists>rest. snd (fetch e u d) = Download [u] # rest \<and> set rest \<subseteq> range Print"
  by (auto simp: fetch_def split: option.splits)


lemma playlist_branch_events:
  "set (snd (playlist_branch e u d s i es))
     \<subseteq> {Input confirm_prompt, Download [u]} \<union> range Print"
  using fetch_events [of e u d] playlist_report_prints [of i es]
  by (auto simp: playlist_branch_def Let_def split_beta split: sum.splits)

lemma try_body_events:
  "set (snd (try_body e u d s))
     \<subseteq> {NewSession (make_ydl_opts d), ExtractInfo u, Input confirm_prompt, Download [u]}
       \<union> range Print"
  using fetch_events [of e u d] playlist_branch_events [of e u d s]
  by (auto simp: try_body_def Let_def split_beta
      split: option.splits sum.splits probe_value.splits)

text \<open>The \<^verbatim>\<open>except\<close> clauses add at most a printed line.\<close>

lemma handle_shape: "\<exists>rest. snd (handle r) = snd r @ rest \<and> set rest \<subseteq> range Print"
  by (cases r rule: handle.cases) auto

lemma set_handle: "set (snd (handle r)) \<subseteq> set (snd r) \<union> range Print"
  by (cases r rule: handle.cases) auto

lemma no_makedirs_in_session: "Makedirs p \<notin> set (snd (handle (try_body e u d s)))"
  using set_handle [of "try_body e u d s"] try_body_events [of e u d s] by auto

lemma handle_propagates: "fst (handle r) = Propagated x \<Longrightarrow> \<not> is_Exception x"
  by (cases r rule: handle.cases) auto

subsection \<open>URL validation\<close>

text \<open>
  C4. For every URL that contains neither \<^verbatim>\<open>youtube.com\<close> nor \<^verbatim>\<open>youtu.be\<close>,
  \<open>main\<close> prints the error line and exits with code 1. That line is the only call it
  issues: \<open>download_audio\<close> is not invoked, no probe or download call is made, and the
  file system is unchanged.
\<close>

theorem invalid_url_exits_before_orchestrator:
  assumes "\<not> (\<exists>p s. arg_url a = p @ ''youtube.com'' @ s)"
    and "\<not> (\<exists>p s. arg_url a = p @ ''youtu.be'' @ s)"
  shows "main e a fs = (Exit 1, fs, [Print ''Error: Please provide a valid YouTube URL''])"
  using assms unfolding main_def contains_iff by simp

theorem invalid_url_exits_before_orchestrator_witness:
  "\<not> (\<exists>p s. ''https://example.com/watch'' = p @ ''youtube.com'' @ s)
   \<and> \<not> (\<exists>p s. ''https://example.com/watch'' = p @ ''youtu.be'' @ s)
   \<and> main (example_env (Inr (Info song)) (Inr ''y'') None)
        \<lparr>arg_url = ''https://example.com/watch'', arg_output = ''downloads'',
         arg_no_confirm = False\<rparr> {}
      = (Exit 1, {}, [Print ''Error: Please provide a valid YouTube URL''])"
proof -
  let ?a = "\<lparr>arg_url = ''https://example.com/watch'', arg_output = ''downloads'',
             arg_no_confirm = False\<rparr>"
  have h1: "\<not> (\<exists>p s. arg_url ?a = p @ ''youtube.com'' @ s)"
    unfolding contains_iff [symmetric] by simp
  have h2: "\<not> (\<exists>p s. arg_url ?a = p @ ''youtu.be'' @ s)"
    unfolding contains_iff [symmetric] by simp
  show ?thesis
    using invalid_url_exits_before_orchestrator
      [OF h1 h2, of "example_env (Inr (Info song)) (Inr ''y'') None" "{}"] h1 h2
    by simp
qed

subsection \<open>The tool check and the output directory\<close>

text \<open>
  C5. When the tool check fails, \<open>download_audio\<close> returns \<open>False\<close> at once: the file
  system is as it was (no directory is created) and the only calls issued are the printed
  lines of the check, so there is no probe and no download call.
\<close>

theorem missing_tool_returns_failure_untouched:
  assumes "\<not> fst (check_ffmpeg e)"
  shows "download_audio e u d s fs = (Returned False, fs, map Print ffmpeg_help)"
  using assms by (simp add: download_audio_def check_ffmpeg_False)

theorem missing_tool_returns_failure_untouched_witness:
  "\<not> fst (check_ffmpeg env_no_ffprobe)
   \<and> download_audio env_no_ffprobe video_url ''downloads'' False {}
       = (Returned False, {}, map Print ffmpeg_help)"
proof -
  have h: "\<not> fst (check_ffmpeg env_no_ffprobe)"
    by (simp add: check_ffmpeg_def env_no_ffprobe_def example_env_def)
  show ?thesis
    using missing_tool_returns_failure_untouched [OF h, of video_url "''downloads''" False "{}"] h
    by simp
qed

text \<open>
  C7. When the output directory exists at the second of two calls with that directory, the
  second call issues no \<^verbatim>\<open>makedirs\<close>, so that step cannot raise; the file system is
  left as it was, with the directory in it. All that can still pass through the call is an
  exception outside \<^verbatim>\<open>Exception\<close> raised in the session.
\<close>

theorem existing_directory_is_kept:
  assumes first: "download_audio e1 u1 d s1 fs0 = (r1, fs1, evs1)"
    and exists: "d \<in> fs1"
    and second: "download_audio e2 u2 d s2 fs1 = (r2, fs2, evs2)"
  shows "fs2 = fs1 \<and> d \<in> fs2 \<and> (\<forall>p. Makedirs p \<notin> set evs2)
         \<and> (\<forall>x. r2 = Propagated x \<longrightarrow> \<not> is_Exception x)"
proof (cases "fst (check_ffmpeg e2)")
  case False
  then show ?thesis using second exists
    by (auto simp: download_audio_def check_ffmpeg_False ffmpeg_help_def)
next
  case True
  have dir: "fst (ensure_dir e2 d fs1) = None"
    using exists by (simp add: ensure_dir_exists)
  show ?thesis
    using second exists handle_propagates [of "try_body e2 u2 d s2"]
      no_makedirs_in_session [of _ e2 u2 d s2]
    unfolding download_audio_session [OF True dir]
    by auto
qed

theorem existing_directory_is_kept_witness:
  "''downloads'' \<in> fst (snd (download_audio (example_env (Inr (Info song)) (Inr ''y'') None)
                               video_url ''downloads'' False {}))
   \<and> fst (snd (download_audio env_read_only video_url ''downloads'' True {''downloads''}))
       = {''downloads''}
   \<and> (\<forall>p. Makedirs p \<notin> set (snd (snd (download_audio env_read_only video_url ''downloads'' True
                                         {''downloads''}))))
   \<and> fst (download_audio env_read_only video_url ''downloads'' True {''downloads''})
       = Returned True"
proof -
  let ?e1 = "example_env (Inr (Info song)) (Inr ''y'') None"
  let ?first = "download_audio ?e1 video_url ''downloads'' False {}"
  let ?second = "download_audio env_read_only video_url ''downloads'' True {''downloads''}"
  have fs1: "fst (snd ?first) = {''downloads''}"
    by (simp add: download_audio_def check_ffmpeg_def ensure_dir_def makedirs_def parents_def
        try_body_def fetch_def example_env_def song_def)
  have h1: "?first = (fst ?first, {''downloads''}, snd (snd ?first))"
    using fs1 by (metis prod.collapse)
  have h2: "''downloads'' \<in> {''downloads''}"
    by simp
  have h3: "?second = (fst ?second, fst (snd ?second), snd (snd ?second))"
    by simp
  have r2: "fst ?second = Returned True"
    by (simp add: download_audio_def check_ffmpeg_def ensure_dir_def
        try_body_def fetch_def env_read_only_def example_env_def song_def)
  show ?thesis
    using existing_directory_is_kept [OF h1 h2 h3] fs1 r2 by simp
qed

text \<open>
  C9. Whenever the tool check has passed and \<open>download_audio\<close> returns \<open>False\<close> (the
  probe or the download raised, or the user declined), the output directory exists
  afterwards, nothing that existed before is gone, and a directory that was missing was
  created by the first call the function issued.
\<close>

theorem directory_persists_on_failure:
  assumes tools: "fst (check_ffmpeg e)"
    and fail: "download_audio e u d s fs = (Returned False, fs', evs)"
  shows "d \<in> fs' \<and> fs \<subseteq> fs' \<and> (d \<notin> fs \<longrightarrow> hd evs = Makedirs d)"
proof (cases "fst (ensure_dir e d fs)")
  case None
  show ?thesis
    using fail unfolding download_audio_session [OF tools None] by auto
next
  case (Some x)
  show ?thesis
    using fail unfolding download_audio_dir_raises [OF tools Some] by simp
qed

theorem directory_persists_on_failure_witness:
  "fst (check_ffmpeg (example_env (Inl (DownloadError ''Video unavailable'')) (Inr ''y'') None))
   \<and> fst (download_audio (example_env (Inl (DownloadError ''Video unavailable'')) (Inr ''y'') None)
            video_url ''downloads'' False {}) = Returned False
   \<and> ''downloads'' \<in> fst (snd (download_audio
        (example_env (Inl (DownloadError ''Video unavailable'')) (Inr ''y'') None)
        video_url ''downloads'' False {}))
   \<and> hd (snd (snd (download_audio
        (example_env (Inl (DownloadError ''Video unavailable'')) (Inr ''y'') None)
        video_url ''downloads'' False {}))) = Makedirs ''downloads''"
proof -
  let ?e = "example_env (Inl (DownloadError ''Video unavailable'')) (Inr ''y'') None"
  let ?run = "download_audio ?e video_url ''downloads'' False {}"
  have h1: "fst (check_ffmpeg ?e)"
    by (simp add: check_ffmpeg_def example_env_def)
  have r: "fst ?run = Returned False"
    by (simp add: download_audio_def check_ffmpeg_def ensure_dir_def makedirs_def
        try_body_def example_env_def)
  have h2: "?run = (Returned False, fst (snd ?run), snd (snd ?run))"
    using r by (metis prod.collapse)
  show ?thesis
    using directory_persists_on_failure [OF h1 h2] h1 r by simp
qed


subsection \<open>Exceptions\<close>



lemma try_body_probe_raises:
  "session_fault e (make_ydl_opts d) = None \<Longrightarrow> extract_info e u = Inl x \<Longrightarrow>
   fst (try_body e u d s) = Raises x"
  by (simp add: try_body_def)

lemma try_body_download_raises:
  "Download [u] \<in> set (snd (try_body e u d s)) \<Longrightarrow> download e [u] = Some x \<Longrightarrow>
   fst (try_body e u d s) = Raises x"
  using playlist_report_prints
  by (auto simp: try_body_def playlist_branch_def Let_def split_beta fetch_def
      split: option.splits sum.splits probe_value.splits if_splits)



lemma handle_DownloadError:
  "fst r = Raises (DownloadError m) \<Longrightarrow>
   handle r = (Returned False, snd r @ [Print (cross_mark @ '' Download error: '' @ m)])"
  by (cases r) simp

lemma handle_OtherException:
  "fst r = Raises (OtherException m) \<Longrightarrow>
   handle r = (Returned False, snd r @ [Print (cross_mark @ '' Unexpected error: '' @ m)])"
  by (cases r) simp

lemma download_in_session:
  "Download [u] \<in> set ((if d \<in> fs then [] else [Makedirs d]) @ snd (handle (try_body e u d s)))
   \<Longrightarrow> Download [u] \<in> set (snd (try_body e u d s))"
  using set_handle [of "try_body e u d s"] by (auto split: if_splits)








text \<open>
  C6, as the specification states it, fails for an exception type outside
  \<^verbatim>\<open>Exception\<close>: a \<^verbatim>\<open>KeyboardInterrupt\<close> raised by the probe, or by the download,
  passes through \<open>download_audio\<close>. No failure is returned and no diagnostic is printed:
  the last call issued is the one that raised.
\<close>

theorem interrupt_in_probe_or_download_propagates:
  "download_audio (example_env (Inl (NonException ''KeyboardInterrupt'')) (Inr ''y'') None)
       video_url ''downloads'' False {}
     = (Propagated (NonException ''KeyboardInterrupt''), {''downloads''},
        [Makedirs ''downloads'', NewSession (make_ydl_opts ''downloads''),
         Print ''Analyzing URL...'', ExtractInfo video_url])
   \<and> download_audio
         (example_env (Inr (Info song)) (Inr ''y'') (Some (NonException ''KeyboardInterrupt'')))
         video_url ''downloads'' False {}
     = (Propagated (NonException ''KeyboardInterrupt''), {''downloads''},
        [Makedirs ''downloads'', NewSession (make_ydl_opts ''downloads''),
         Print ''Analyzing URL...'', ExtractInfo video_url, Print ''Found video: Song'',
         Print ''Downloading single video...'', Download [video_url]])"
  by (simp add: download_audio_def check_ffmpeg_def ensure_dir_def makedirs_def parents_def
      try_body_def fetch_def get_title_def example_env_def song_def)

text \<open>
  C6, amended. A \<^verbatim>\<open>DownloadError\<close> and any other instance of \<^verbatim>\<open>Exception\<close>, raised
  by the probe or by a download call that was issued, both make \<open>download_audio\<close> return
  \<open>False\<close>; the last line printed opens with \<^verbatim>\<open>Download error:\<close> for the first and
  with \<^verbatim>\<open>Unexpected error:\<close> for the second, and no line is of both forms.
\<close>

theorem exception_classes_distinguished:
  assumes tools: "fst (check_ffmpeg e)"
    and dir: "fst (ensure_dir e d fs) = None"
    and run: "download_audio e u d s fs = (r, fs', evs)"
  shows "(session_fault e (make_ydl_opts d) = None \<and> extract_info e u = Inl (DownloadError m)
            \<longrightarrow> r = Returned False \<and> last evs = Print (cross_mark @ '' Download error: '' @ m))
       \<and> (session_fault e (make_ydl_opts d) = None \<and> extract_info e u = Inl (OtherException m)
            \<longrightarrow> r = Returned False \<and> last evs = Print (cross_mark @ '' Unexpected error: '' @ m))
       \<and> (Download [u] \<in> set evs \<and> download e [u] = Some (DownloadError m)
            \<longrightarrow> r = Returned False \<and> last evs = Print (cross_mark @ '' Download error: '' @ m))
       \<and> (Download [u] \<in> set evs \<and> download e [u] = Some (OtherException m)
            \<longrightarrow> r = Returned False \<and> last evs = Print (cross_mark @ '' Unexpected error: '' @ m))
       \<and> (\<forall>m1 m2. cross_mark @ '' Download error: '' @ m1
                    \<noteq> cross_mark @ '' Unexpected error: '' @ m2)"
proof -
  let ?t = "try_body e u d s"
  have r: "r = fst (handle ?t)"
    and evs: "evs = (if d \<in> fs then [] else [Makedirs d]) @ snd (handle ?t)"
    using run unfolding download_audio_session [OF tools dir] by auto
  have dl: "r = Returned False \<and> last evs = Print (cross_mark @ '' Download error: '' @ m)"
    if "fst ?t = Raises (DownloadError m)"
    using handle_DownloadError [OF that] r evs by simp
  have ot: "r = Returned False \<and> last evs = Print (cross_mark @ '' Unexpected error: '' @ m)"
    if "fst ?t = Raises (OtherException m)"
    using handle_OtherException [OF that] r evs by simp
  have reach: "Download [u] \<in> set (snd ?t)" if "Download [u] \<in> set evs"
    using that download_in_session [of u d fs e s] evs by simp
  show ?thesis
    using dl ot reach try_body_probe_raises [of e d u _ s] try_body_download_raises [of u e d s]
    by auto
qed

theorem exception_classes_distinguished_witness:
  "(fst (download_audio (example_env (Inl (DownloadError ''Video unavailable'')) (Inr ''y'') None)
           video_url ''downloads'' False {}) = Returned False
    \<and> last (snd (snd (download_audio
           (example_env (Inl (DownloadError ''Video unavailable'')) (Inr ''y'') None)
           video_url ''downloads'' False {})))
        = Print (cross_mark @ '' Download error: Video unavailable''))
   \<and> (fst (download_audio (example_env (Inl (OtherException ''timed out'')) (Inr ''y'') None)
           video_url ''downloads'' False {}) = Returned False
    \<and> last (snd (snd (download_audio
           (example_env (Inl (OtherException ''timed out'')) (Inr ''y'') None)
           video_url ''downloads'' False {})))
        = Print (cross_mark @ '' Unexpected error: timed out''))
   \<and> (Download [video_url] \<in> set (snd (snd (download_audio
           (example_env (Inr (Info song)) (Inr ''y'') (Some (DownloadError ''HTTP Error 403'')))
           video_url ''downloads'' False {})))
    \<and> fst (download_audio
           (example_env (Inr (Info song)) (Inr ''y'') (Some (DownloadError ''HTTP Error 403'')))
           video_url ''downloads'' False {}) = Returned False
    \<and> last (snd (snd (download_audio
           (example_env (Inr (Info song)) (Inr ''y'') (Some (DownloadError ''HTTP Error 403'')))
           video_url ''downloads'' False {})))
        = Print (cross_mark @ '' Download error: HTTP Error 403''))
   \<and> (Download [playlist_url] \<in> set (snd (snd (download_audio
           (example_env (Inr (Info my_list)) (Inr ''y'') (Some (OtherException ''disk full'')))
           playlist_url ''downloads'' False {})))
    \<and> fst (download_audio
           (example_env (Inr (Info my_list)) (Inr ''y'') (Some (OtherException ''disk full'')))
           playlist_url ''downloads'' False {}) = Returned False
    \<and> last (snd (snd (download_audio
           (example_env (Inr (Info my_list)) (Inr ''y'') (Some (OtherException ''disk full'')))
           playlist_url ''downloads'' False {})))
        = Print (cross_mark @ '' Unexpected error: disk full''))"
proof -
  let ?e1 = "example_env (Inl (DownloadError ''Video unavailable'')) (Inr ''y'') None"
  let ?e2 = "example_env (Inl (OtherException ''timed out'')) (Inr ''y'') None"
  let ?e3 = "example_env (Inr (Info song)) (Inr ''y'') (Some (DownloadError ''HTTP Error 403''))"
  let ?e4 = "example_env (Inr (Info my_list)) (Inr ''y'') (Some (OtherException ''disk full''))"
  let ?r1 = "download_audio ?e1 video_url ''downloads'' False {}"
  let ?r2 = "download_audio ?e2 video_url ''downloads'' False {}"
  let ?r3 = "download_audio ?e3 video_url ''downloads'' False {}"
  let ?r4 = "download_audio ?e4 playlist_url ''downloads'' False {}"
  have tools: "fst (check_ffmpeg (example_env p a f))" for p a f
    by (simp add: check_ffmpeg_def example_env_def)
  have dir: "fst (ensure_dir (example_env p a f) ''downloads'' {}) = None" for p a f
    by (simp add: ensure_dir_def makedirs_def example_env_def)
  have pair: "x = (fst x, fst (snd x), snd (snd x))" for x :: "outcome \<times> string set \<times> event list"
    by simp
  have a1: "session_fault ?e1 (make_ydl_opts ''downloads'') = None
      \<and> extract_info ?e1 video_url = Inl (DownloadError ''Video unavailable'')"
    by (simp add: example_env_def)
  have a2: "session_fault ?e2 (make_ydl_opts ''downloads'') = None
      \<and> extract_info ?e2 video_url = Inl (OtherException ''timed out'')"
    by (simp add: example_env_def)
  have a3: "Download [video_url] \<in> set (snd (snd ?r3))
      \<and> download ?e3 [video_url] = Some (DownloadError ''HTTP Error 403'')"
    by (simp add: download_audio_def check_ffmpeg_def ensure_dir_def makedirs_def
        try_body_def fetch_def example_env_def song_def)
  have a4: "Download [playlist_url] \<in> set (snd (snd ?r4))
      \<and> download ?e4 [playlist_url] = Some (OtherException ''disk full'')"
    by (simp add: download_audio_def check_ffmpeg_def ensure_dir_def makedirs_def
        try_body_def playlist_branch_def fetch_def lower_def lower_char_def
        example_env_def my_list_def)
  have c1: "fst ?r1 = Returned False
      \<and> last (snd (snd ?r1)) = Print (cross_mark @ '' Download error: Video unavailable'')"
    using exception_classes_distinguished
        [where e = "?e1" and u = video_url and d = "''downloads''" and s = False and fs = "{}"
           and m = "''Video unavailable''", OF tools dir pair] a1
    by simp
  have c2: "fst ?r2 = Returned False
      \<and> last (snd (snd ?r2)) = Print (cross_mark @ '' Unexpected error: timed out'')"
    using exception_classes_distinguished
        [where e = "?e2" and u = video_url and d = "''downloads''" and s = False and fs = "{}"
           and m = "''timed out''", OF tools dir pair] a2
    by simp
  have c3: "fst ?r3 = Returned False
      \<and> last (snd (snd ?r3)) = Print (cross_mark @ '' Download error: HTTP Error 403'')"
    using exception_classes_distinguished
        [where e = "?e3" and u = video_url and d = "''downloads''" and s = False and fs = "{}"
           and m = "''HTTP Error 403''", OF tools dir pair] a3
    by simp
  have c4: "fst ?r4 = Returned False
      \<and> last (snd (snd ?r4)) = Print (cross_mark @ '' Unexpected error: disk full'')"
    using exception_classes_distinguished
        [where e = "?e4" and u = playlist_url and d = "''downloads''" and s = False and fs = "{}"
           and m = "''disk full''", OF tools dir pair] a4
    by simp
  show ?thesis
    using c1 c2 c3 c4 a3 a4 by blast
qed


subsection \<open>The report on a playlist\<close>

lemma string_of_nat_digit: "n < 10 \<Longrightarrow> string_of_nat n = [digit n]"
  by (simp add: string_of_nat.simps)

text \<open>The digits printed for a number read back as that number.\<close>

lemma digit_value_digit: "k < 10 \<Longrightarrow> digit_value (digit k) = k"
proof -
  assume "k < 10"
  then have "k \<in> {0, 1, 2, 3, 4, 5, 6, 7, 8, 9}" by auto
  then show ?thesis by (auto simp: digit_value_def digit_def)
qed

lemma number_of_string_snoc:
  "number_of_string (ds @ [c]) = 10 * number_of_string ds + digit_value c"
  by (simp add: number_of_string_def)

lemma number_of_string_of_nat: "number_of_string (string_of_nat n) = n"
proof (induction n rule: string_of_nat.induct)
  case (1 n)
  show ?case
  proof (cases "n < 10")
    case True
    then show ?thesis
      by (simp add: string_of_nat.simps [of n] number_of_string_def digit_value_digit)
  next
    case False
    then have "number_of_string (string_of_nat n)
        = 10 * number_of_string (string_of_nat (n div 10)) + digit_value (digit (n mod 10))"
      by (simp add: string_of_nat.simps [of n] number_of_string_snoc)
    also have "\<dots> = 10 * (n div 10) + n mod 10"
      using "1.IH" [OF False] by (simp add: digit_value_digit)
    also have "\<dots> = n" by simp
    finally show ?thesis .
  qed
qed

lemma string_of_nat_digits: "set (string_of_nat n) \<subseteq> set ''0123456789''"
proof (induction n rule: string_of_nat.induct)
  case (1 n)
  have d: "digit k \<in> set ''0123456789''" if "k < 10" for k
  proof -
    from that have "k \<in> {0, 1, 2, 3, 4, 5, 6, 7, 8, 9}" by auto
    then show ?thesis by (auto simp: digit_def)
  qed
  show ?case
  proof (cases "n < 10")
    case True
    then show ?thesis using d [of n] by (simp add: string_of_nat.simps [of n])
  next
    case False
    then show ?thesis
      using "1.IH" [OF False] d [of "n mod 10"] by (simp add: string_of_nat.simps [of n])
  qed
qed

lemma warning_unavailable_note: "is_unavailable_warning (Print (unavailable_note n))"
  by (simp add: unavailable_note_def starts_with_iff)

lemma warnings_of_report:
  "filter is_unavailable_warning (playlist_report i es) =
     (if length es \<noteq> length (filter (\<lambda>x. x \<noteq> None) es)
      then [Print (unavailable_note (length es - length (filter (\<lambda>x. x \<noteq> None) es)))]
      else [])"
proof -
  have head: "\<not> is_unavailable_warning (Print (''Found playlist: '' @ t))"
    "\<not> is_unavailable_warning (Print (''Total videos: '' @ a))"
    "\<not> is_unavailable_warning (Print (''Available videos: '' @ b))" for t a b
    by (simp_all add: warning_sign_def)
  show ?thesis
    unfolding playlist_report_def Let_def
    using head warning_unavailable_note by simp
qed

lemma warnings_of_fetch: "filter is_unavailable_warning (snd (fetch e u d)) = []"
  by (simp add: fetch_def warning_sign_def split: option.splits)

lemma warnings_of_handle:
  "filter is_unavailable_warning (snd (handle r)) = filter is_unavailable_warning (snd r)"
  by (cases r rule: handle.cases) (simp_all add: warning_sign_def cross_mark_def)

text \<open>After the report the playlist branch prints no warning, and it prompts unless told to skip.\<close>

lemma playlist_branch_shape:
  "\<exists>rest. snd (playlist_branch e u d s i es) = playlist_report i es @ rest
     \<and> filter is_unavailable_warning rest = []
     \<and> (Input confirm_prompt \<in> set rest \<longleftrightarrow> \<not> s)"
  using warnings_of_fetch [of e u d] fetch_events [of e u d]
  by (auto simp: playlist_branch_def Let_def split_beta warning_sign_def split: sum.splits)

lemma try_body_playlist:
  assumes "session_fault e (make_ydl_opts d) = None" and "extract_info e u = Inr (Info i)"
    and "entries i = Some es"
  shows "try_body e u d s =
     (fst (playlist_branch e u d s i es),
      [NewSession (make_ydl_opts d), Print ''Analyzing URL...'', ExtractInfo u]
      @ snd (playlist_branch e u d s i es))"
  using assms by (simp add: try_body_def split_beta)

lemma try_body_single:
  assumes "session_fault e (make_ydl_opts d) = None" and "extract_info e u = Inr (Info i)"
    and "entries i = None"
  shows "try_body e u d s =
     (fst (fetch e u d),
      [NewSession (make_ydl_opts d), Print ''Analyzing URL...'', ExtractInfo u,
       Print (''Found video: '' @ get_title i), Print ''Downloading single video...'']
      @ snd (fetch e u d))"
  using assms by (simp add: try_body_def split_beta)

text \<open>
  C2. For a collection, \<open>download_audio\<close> prints the number of entries and the number of
  entries that are not \<^verbatim>\<open>None\<close>. Among all it prints, the lines that open with the
  warning sign are: when the counts differ, the one line
  \<^verbatim>\<open>Note: N videos are unavailable and will be skipped\<close> in which \<open>N\<close> is the decimal
  numeral of the total minus the available count, and none when they are equal. The
  numerals read back as the counts and as their difference. With 5 entries of which 3 are
  available the line says 2.
\<close>

theorem playlist_report_counts_and_warning:
  assumes tools: "fst (check_ffmpeg e)"
    and dir: "fst (ensure_dir e d fs) = None"
    and session: "session_fault e (make_ydl_opts d) = None"
    and probe: "extract_info e u = Inr (Info i)"
    and coll: "entries i = Some es"
  shows "\<exists>r fs' evs. download_audio e u d s fs = (r, fs', evs)
     \<and> Print (''Total videos: '' @ string_of_nat (length es)) \<in> set evs
     \<and> Print (''Available videos: '' @ string_of_nat (length (filter (\<lambda>x. x \<noteq> None) es)))
         \<in> set evs
     \<and> filter is_unavailable_warning evs =
         (if length es \<noteq> length (filter (\<lambda>x. x \<noteq> None) es)
          then [Print (warning_sign @ ''  Note: ''
                       @ string_of_nat (length es - length (filter (\<lambda>x. x \<noteq> None) es))
                       @ '' videos are unavailable and will be skipped'')]
          else [])
     \<and> number_of_string (string_of_nat (length es)) = length es
     \<and> number_of_string (string_of_nat (length (filter (\<lambda>x. x \<noteq> None) es)))
         = length (filter (\<lambda>x. x \<noteq> None) es)
     \<and> int (number_of_string
              (string_of_nat (length es - length (filter (\<lambda>x. x \<noteq> None) es))))
         = int (length es) - int (length (filter (\<lambda>x. x \<noteq> None) es))
     \<and> (length es = 5 \<and> length (filter (\<lambda>x. x \<noteq> None) es) = 3 \<longrightarrow>
          filter is_unavailable_warning evs =
            [Print (warning_sign @ ''  Note: 2 videos are unavailable and will be skipped'')])"
proof -
  let ?t = "try_body e u d s"
  obtain rest where rest: "snd (playlist_branch e u d s i es) = playlist_report i es @ rest"
    and quiet: "filter is_unavailable_warning rest = []"
    using playlist_branch_shape by blast
  have evs: "snd ?t = [NewSession (make_ydl_opts d), Print ''Analyzing URL...'', ExtractInfo u]
      @ playlist_report i es @ rest"
    using try_body_playlist [OF session probe coll] rest by simp
  have w: "filter is_unavailable_warning (snd (handle ?t)) =
      filter is_unavailable_warning (playlist_report i es)"
    unfolding warnings_of_handle evs using quiet by (simp add: warning_sign_def)
  obtain more where more: "snd (handle ?t) = snd ?t @ more"
    using handle_shape by blast
  have two: "string_of_nat (5 - 3) = ''2''"
    by (simp add: string_of_nat_digit digit_def)
  have mem: "Print (''Total videos: '' @ string_of_nat (length es)) \<in> set (snd (handle ?t))"
    "Print (''Available videos: '' @ string_of_nat (length (filter (\<lambda>x. x \<noteq> None) es)))
         \<in> set (snd (handle ?t))"
    unfolding more evs by (simp_all add: playlist_report_def Let_def)
  have diff: "int (length es - length (filter (\<lambda>x. x \<noteq> None) es))
      = int (length es) - int (length (filter (\<lambda>x. x \<noteq> None) es))"
    using length_filter_le [of "\<lambda>x. x \<noteq> None" es] by simp
  show ?thesis
    unfolding download_audio_session [OF tools dir]
    using w mem two diff
    by (simp add: warnings_of_report unavailable_note_def number_of_string_of_nat)
qed

theorem playlist_report_counts_and_warning_witness:
  "fst (check_ffmpeg (example_env (Inr (Info five_three)) (Inr ''yes'') None))
   \<and> fst (ensure_dir (example_env (Inr (Info five_three)) (Inr ''yes'') None) ''downloads'' {})
       = None
   \<and> extract_info (example_env (Inr (Info five_three)) (Inr ''yes'') None) playlist_url
       = Inr (Info five_three)
   \<and> (\<exists>r fs' evs.
         download_audio (example_env (Inr (Info five_three)) (Inr ''yes'') None)
           playlist_url ''downloads'' False {} = (r, fs', evs)
         \<and> Print ''Total videos: 5'' \<in> set evs
         \<and> Print ''Available videos: 3'' \<in> set evs
         \<and> filter is_unavailable_warning evs =
             [Print (warning_sign @ ''  Note: 2 videos are unavailable and will be skipped'')])"
proof -
  let ?e = "example_env (Inr (Info five_three)) (Inr ''yes'') None"
  let ?es = "[Some \<lparr>entry_title = ''a''\<rparr>, None, Some \<lparr>entry_title = ''c''\<rparr>, None,
              Some \<lparr>entry_title = ''e''\<rparr>]"
  have h1: "fst (check_ffmpeg ?e)"
    by (simp add: check_ffmpeg_def example_env_def)
  have h2: "fst (ensure_dir ?e ''downloads'' {}) = None"
    by (simp add: ensure_dir_def makedirs_def example_env_def)
  have h3: "session_fault ?e (make_ydl_opts ''downloads'') = None"
    by (simp add: example_env_def)
  have h4: "extract_info ?e playlist_url = Inr (Info five_three)"
    by (simp add: example_env_def)
  have h5: "entries five_three = Some ?es"
    by (simp add: five_three_def)
  have n: "string_of_nat 5 = ''5''" "string_of_nat 3 = ''3''"
    by (simp_all add: string_of_nat_digit digit_def)
  have len: "length ?es = 5" "length (filter (\<lambda>x. x \<noteq> None) ?es) = 3"
    by simp_all
  from playlist_report_counts_and_warning [OF h1 h2 h3 h4 h5, of False]
  obtain r fs' evs where run: "download_audio ?e playlist_url ''downloads'' False {} = (r, fs', evs)"
    and tot: "Print (''Total videos: '' @ string_of_nat (length ?es)) \<in> set evs"
    and av: "Print (''Available videos: ''
               @ string_of_nat (length (filter (\<lambda>x. x \<noteq> None) ?es))) \<in> set evs"
    and w: "length ?es = 5 \<and> length (filter (\<lambda>x. x \<noteq> None) ?es) = 3 \<longrightarrow>
          filter is_unavailable_warning evs =
            [Print (warning_sign @ ''  Note: 2 videos are unavailable and will be skipped'')]"
    by blast
  have "Print ''Total videos: 5'' \<in> set evs"
    using tot unfolding len n by simp
  moreover have "Print ''Available videos: 3'' \<in> set evs"
    using av unfolding len n by simp
  moreover have "filter is_unavailable_warning evs =
      [Print (warning_sign @ ''  Note: 2 videos are unavailable and will be skipped'')]"
    using w len by blast
  ultimately show ?thesis using run h1 h2 h4 by blast
qed

text \<open>
  C10. A probe result whose \<^verbatim>\<open>entries\<close> is the empty list is treated as a playlist:
  the report names it as one, gives 0 for both counts and has no warning line, and the
  prompt is issued exactly when \<open>skip_confirmation\<close> is false.
\<close>

theorem empty_playlist_is_collection:
  assumes tools: "fst (check_ffmpeg e)"
    and dir: "fst (ensure_dir e d fs) = None"
    and session: "session_fault e (make_ydl_opts d) = None"
    and probe: "extract_info e u = Inr (Info i)"
    and empty: "entries i = Some []"
  shows "\<exists>r fs' evs. download_audio e u d s fs = (r, fs', evs)
     \<and> Print (''Found playlist: '' @ get_title i) \<in> set evs
     \<and> Print ''Total videos: 0'' \<in> set evs
     \<and> Print ''Available videos: 0'' \<in> set evs
     \<and> filter is_unavailable_warning evs = []
     \<and> (Input confirm_prompt \<in> set evs \<longleftrightarrow> \<not> s)"
proof -
  let ?t = "try_body e u d s"
  obtain rest where rest: "snd (playlist_branch e u d s i []) = playlist_report i [] @ rest"
    and quiet: "filter is_unavailable_warning rest = []"
    and gate: "Input confirm_prompt \<in> set rest \<longleftrightarrow> \<not> s"
    using playlist_branch_shape by blast
  have report: "playlist_report i [] =
      [Print (''Found playlist: '' @ get_title i), Print ''Total videos: 0'',
       Print ''Available videos: 0'']"
    by (simp add: playlist_report_def string_of_nat_digit digit_def)
  have tb: "snd ?t = [NewSession (make_ydl_opts d), Print ''Analyzing URL...'', ExtractInfo u]
      @ playlist_report i [] @ rest"
    using try_body_playlist [OF session probe empty] rest by simp
  obtain more where more: "snd (handle ?t) = snd ?t @ more" and mp: "set more \<subseteq> range Print"
    using handle_shape by blast
  let ?evs = "(if d \<in> fs then [] else [Makedirs d]) @ snd (handle ?t)"
  have w: "filter is_unavailable_warning ?evs = []"
    using quiet warnings_of_handle [of ?t] unfolding tb report
    by (simp add: warning_sign_def)
  have inp: "Input confirm_prompt \<in> set ?evs \<longleftrightarrow> \<not> s"
    unfolding more tb report using gate mp by auto
  have mem: "Print (''Found playlist: '' @ get_title i) \<in> set ?evs"
    "Print ''Total videos: 0'' \<in> set ?evs" "Print ''Available videos: 0'' \<in> set ?evs"
    unfolding more tb report by simp_all
  show ?thesis
    unfolding download_audio_session [OF tools dir]
    using w inp mem by blast
qed

theorem empty_playlist_is_collection_witness:
  "fst (check_ffmpeg (example_env (Inr (Info empty_list)) (Inr []) None))
   \<and> fst (ensure_dir (example_env (Inr (Info empty_list)) (Inr []) None) ''downloads'' {}) = None
   \<and> entries empty_list = Some []
   \<and> (\<exists>r fs' evs.
         download_audio (example_env (Inr (Info empty_list)) (Inr []) None)
           playlist_url ''downloads'' False {} = (r, fs', evs)
         \<and> Print ''Found playlist: Unknown'' \<in> set evs
         \<and> Print ''Total videos: 0'' \<in> set evs
         \<and> Print ''Available videos: 0'' \<in> set evs
         \<and> filter is_unavailable_warning evs = []
         \<and> Input confirm_prompt \<in> set evs)"
proof -
  let ?e = "example_env (Inr (Info empty_list)) (Inr []) None"
  have h1: "fst (check_ffmpeg ?e)"
    by (simp add: check_ffmpeg_def example_env_def)
  have h2: "fst (ensure_dir ?e ''downloads'' {}) = None"
    by (simp add: ensure_dir_def makedirs_def example_env_def)
  have h3: "session_fault ?e (make_ydl_opts ''downloads'') = None"
    by (simp add: example_env_def)
  have h4: "extract_info ?e playlist_url = Inr (Info empty_list)"
    by (simp add: example_env_def)
  have h5: "entries empty_list = Some []"
    by (simp add: empty_list_def)
  have t: "get_title empty_list = ''Unknown''"
    by (simp add: get_title_def empty_list_def)
  show ?thesis
    using empty_playlist_is_collection [OF h1 h2 h3 h4 h5, of False] h1 h2 h5 t by simp
qed

subsection \<open>A single item\<close>

text \<open>
  C8. For a probe result without \<^verbatim>\<open>entries\<close>, \<open>download_audio\<close> issues no prompt, the
  download call follows the two printed lines that follow the probe, and the whole run is
  the same for both values of \<open>skip_confirmation\<close>.
\<close>

theorem single_item_never_prompts:
  assumes tools: "fst (check_ffmpeg e)"
    and dir: "fst (ensure_dir e d fs) = None"
    and session: "session_fault e (make_ydl_opts d) = None"
    and probe: "extract_info e u = Inr (Info i)"
    and single: "entries i = None"
  shows "\<exists>r fs' evs. download_audio e u d s fs = (r, fs', evs)
     \<and> (\<forall>p. Input p \<notin> set evs)
     \<and> (\<exists>pre post. evs = pre @ [ExtractInfo u, Print (''Found video: '' @ get_title i),
                                 Print ''Downloading single video...'', Download [u]] @ post)
     \<and> download_audio e u d (\<not> s) fs = (r, fs', evs)"
proof -
  let ?t = "try_body e u d s"
  obtain rest where rest: "snd (fetch e u d) = Download [u] # rest"
    and rp: "set rest \<subseteq> range Print"
    using fetch_shape by blast
  have tb: "snd ?t = [NewSession (make_ydl_opts d), Print ''Analyzing URL...'', ExtractInfo u,
       Print (''Found video: '' @ get_title i), Print ''Downloading single video...'',
       Download [u]] @ rest"
    using try_body_single [OF session probe single] rest by simp
  obtain more where more: "snd (handle ?t) = snd ?t @ more" and mp: "set more \<subseteq> range Print"
    using handle_shape by blast
  let ?evs = "(if d \<in> fs then [] else [Makedirs d]) @ snd (handle ?t)"
  have shape: "?evs = ((if d \<in> fs then [] else [Makedirs d])
        @ [NewSession (make_ydl_opts d), Print ''Analyzing URL...''])
      @ [ExtractInfo u, Print (''Found video: '' @ get_title i),
         Print ''Downloading single video...'', Download [u]] @ (rest @ more)"
    unfolding more tb by simp
  have noinput: "\<forall>p. Input p \<notin> set ?evs"
    unfolding shape using rp mp by auto
  have same: "try_body e u d (\<not> s) = try_body e u d s"
    unfolding try_body_single [OF session probe single] ..
  show ?thesis
    unfolding download_audio_session [OF tools dir] same
    using noinput shape by blast
qed

theorem single_item_never_prompts_witness:
  "fst (check_ffmpeg (example_env (Inr (Info song)) (Inr ''n'') None))
   \<and> fst (ensure_dir (example_env (Inr (Info song)) (Inr ''n'') None) ''downloads'' {}) = None
   \<and> entries song = None
   \<and> (\<exists>r fs' evs.
         download_audio (example_env (Inr (Info song)) (Inr ''n'') None)
           video_url ''downloads'' False {} = (r, fs', evs)
         \<and> (\<forall>p. Input p \<notin> set evs)
         \<and> (\<exists>pre post. evs = pre @ [ExtractInfo video_url, Print ''Found video: Song'',
               Print ''Downloading single video...'', Download [video_url]] @ post)
         \<and> download_audio (example_env (Inr (Info song)) (Inr ''n'') None)
             video_url ''downloads'' True {} = (r, fs', evs))"
proof -
  let ?e = "example_env (Inr (Info song)) (Inr ''n'') None"
  have h1: "fst (check_ffmpeg ?e)"
    by (simp add: check_ffmpeg_def example_env_def)
  have h2: "fst (ensure_dir ?e ''downloads'' {}) = None"
    by (simp add: ensure_dir_def makedirs_def example_env_def)
  have h3: "session_fault ?e (make_ydl_opts ''downloads'') = None"
    by (simp add: example_env_def)
  have h4: "extract_info ?e video_url = Inr (Info song)"
    by (simp add: example_env_def)
  have h5: "entries song = None"
    by (simp add: song_def)
  have t: "get_title song = ''Song''"
    by (simp add: get_title_def song_def)
  show ?thesis
    using single_item_never_prompts [OF h1 h2 h3 h4 h5, of False] h1 h2 h5 t by simp
qed


end
